theory Spec2Isabelle
  imports Complex_Main
begin

section \<open>Single-precision arithmetic\<close>

text \<open>
  The fields of \<^verbatim>\<open>MySim\<close> and the argument of \<^verbatim>\<open>update\<close> are C++ \<^verbatim>\<open>float\<close>s, and
  \<^verbatim>\<open>myVal += dt * speed\<close> is one single-precision multiplication followed by one
  single-precision addition. The program is built for WebAssembly, where both are the
  IEEE 754 binary32 operations, rounding to nearest with ties to even, and where no
  fused multiply-add exists that could merge the two roundings into one.

  A binary32 datum is a NaN (the NaNs are not told apart), a signed infinity or a signed
  finite number. Every finite
  binary32 number is an integer multiple of \<open>2\<^sup>-\<^sup>1\<^sup>4\<^sup>9\<close> (the smallest subnormal), so a finite
  number is kept as its sign (\<open>True\<close> for negative) and its magnitude counted in units of
  \<open>2\<^sup>-\<^sup>1\<^sup>4\<^sup>9\<close>: \<open>1.0f\<close> is \<open>Finite False (2 ^ 149)\<close>, and \<open>-0.0f\<close> is \<open>Finite True 0\<close>.
\<close>

datatype f32 = Finite bool nat | Infinity bool | NaN

text \<open>The number of binary digits of a natural number.\<close>

fun bit_length :: "nat \<Rightarrow> nat" where
  "bit_length n = (if n = 0 then 0 else Suc (bit_length (n div 2)))"

declare bit_length.simps [simp del]

text \<open>
  A magnitude is a binary32 magnitude when it has at most 24 significant bits and lies
  below \<open>2\<^sup>1\<^sup>2\<^sup>8\<close>, which is \<open>2 ^ 277\<close> units.
\<close>

definition representable :: "nat \<Rightarrow> bool" where
  "representable m \<longleftrightarrow> m < 2 ^ 277 \<and> m mod 2 ^ (bit_length m - 24) = 0"

fun is_f32 :: "f32 \<Rightarrow> bool" where
  "is_f32 (Finite s m) = representable m"
| "is_f32 (Infinity s) = True"
| "is_f32 NaN = True"

text \<open>
  \<open>rne s n\<close> is \<open>n / 2\<^sup>s\<close> rounded to the nearest natural number, a tie going to the even
  neighbour.
\<close>

definition rne :: "nat \<Rightarrow> nat \<Rightarrow> nat" where
  "rne s n =
     (let q = n div 2 ^ s; r = n mod 2 ^ s
      in if 2 ^ s < 2 * r then q + 1
         else if 2 * r = 2 ^ s \<and> q mod 2 = 1 then q + 1
         else q)"

text \<open>
  \<open>round_mag k n\<close> rounds the exact magnitude \<open>n / 2\<^sup>k\<close> units to 24 significant bits, and
  to a whole number of units where the result is subnormal; the exponent is not bounded
  above here. The result is in units again.
\<close>

definition round_mag :: "nat \<Rightarrow> nat \<Rightarrow> nat" where
  "round_mag k n = (let s = max (bit_length n - 24) k in rne s n * 2 ^ (s - k))"

text \<open>A rounded magnitude of \<open>2\<^sup>1\<^sup>2\<^sup>8\<close> or more overflows to the infinity of its sign.\<close>

definition round_f32 :: "bool \<Rightarrow> nat \<Rightarrow> nat \<Rightarrow> f32" where
  "round_f32 sg k n = (let m = round_mag k n in if m < 2 ^ 277 then Finite sg m else Infinity sg)"

text \<open>
  Addition. An exact zero sum of operands of opposite sign is \<open>+0\<close>; the sum of two zeros
  of the same sign keeps that sign.
\<close>

fun fadd :: "f32 \<Rightarrow> f32 \<Rightarrow> f32" where
  "fadd NaN y = NaN"
| "fadd x NaN = NaN"
| "fadd (Infinity a) (Infinity b) = (if a = b then Infinity a else NaN)"
| "fadd (Infinity a) (Finite b n) = Infinity a"
| "fadd (Finite a m) (Infinity b) = Infinity b"
| "fadd (Finite a m) (Finite b n) =
     (if a = b then round_f32 a 0 (m + n)
      else if m = n then Finite False 0
      else if n < m then round_f32 a 0 (m - n)
      else round_f32 b 0 (n - m))"

text \<open>
  Multiplication. The product of two magnitudes in units is a magnitude in units of
  \<open>2\<^sup>-\<^sup>2\<^sup>9\<^sup>8\<close>, that is, with 149 more fraction bits.
\<close>

fun fmul :: "f32 \<Rightarrow> f32 \<Rightarrow> f32" where
  "fmul NaN y = NaN"
| "fmul x NaN = NaN"
| "fmul (Infinity a) (Infinity b) = Infinity (a \<noteq> b)"
| "fmul (Infinity a) (Finite b n) = (if n = 0 then NaN else Infinity (a \<noteq> b))"
| "fmul (Finite a m) (Infinity b) = (if m = 0 then NaN else Infinity (a \<noteq> b))"
| "fmul (Finite a m) (Finite b n) = round_f32 (a \<noteq> b) 149 (m * n)"

text \<open>
  The comparisons \<^verbatim>\<open><\<close>, \<^verbatim>\<open><=\<close> and \<^verbatim>\<open>==\<close>: false when an operand is a NaN, and the two
  zeros are equal. \<open>signed a m\<close> is the value of a finite number in units.
\<close>

definition signed :: "bool \<Rightarrow> nat \<Rightarrow> int" where
  "signed a m = (if a then - int m else int m)"

fun flt :: "f32 \<Rightarrow> f32 \<Rightarrow> bool" where
  "flt NaN y = False"
| "flt x NaN = False"
| "flt (Infinity a) (Infinity b) = (a \<and> \<not> b)"
| "flt (Infinity a) (Finite b n) = a"
| "flt (Finite a m) (Infinity b) = (\<not> b)"
| "flt (Finite a m) (Finite b n) = (signed a m < signed b n)"

fun fle :: "f32 \<Rightarrow> f32 \<Rightarrow> bool" where
  "fle NaN y = False"
| "fle x NaN = False"
| "fle (Infinity a) (Infinity b) = (if b then a else True)"
| "fle (Infinity a) (Finite b n) = a"
| "fle (Finite a m) (Infinity b) = (\<not> b)"
| "fle (Finite a m) (Finite b n) = (signed a m \<le> signed b n)"

fun feq :: "f32 \<Rightarrow> f32 \<Rightarrow> bool" where
  "feq (Finite a m) (Finite b n) = (signed a m = signed b n)"
| "feq (Infinity a) (Infinity b) = (a = b)"
| "feq x y = False"

text \<open>
  Division, used by the closures for \<^verbatim>\<open>t/12.0f\<close>. The quotient of the magnitudes is
  computed with \<open>k\<close> extra fraction bits, \<open>k\<close> large enough for more than 24 significant
  bits, and one more bit that records whether the division left a remainder.
\<close>

fun fdiv :: "f32 \<Rightarrow> f32 \<Rightarrow> f32" where
  "fdiv NaN y = NaN"
| "fdiv x NaN = NaN"
| "fdiv (Infinity a) (Infinity b) = NaN"
| "fdiv (Infinity a) (Finite b n) = Infinity (a \<noteq> b)"
| "fdiv (Finite a m) (Infinity b) = Finite (a \<noteq> b) 0"
| "fdiv (Finite a m) (Finite b n) =
     (if n = 0 then (if m = 0 then NaN else Infinity (a \<noteq> b))
      else let k = bit_length n + 26;
               q = (m * 2 ^ (149 + k)) div n;
               sticky = (if (m * 2 ^ (149 + k)) mod n = 0 then 0 else 1)
           in round_f32 (a \<noteq> b) (Suc k) (2 * q + sticky))"

text \<open>
  The float of a small whole number (below \<open>2\<^sup>2\<^sup>4\<close> every whole number is a binary32
  number), for the literals of the program, and the literal \<^verbatim>\<open>0.5f\<close>.
\<close>

definition f32_lit :: "nat \<Rightarrow> f32" where
  "f32_lit n = Finite False (n * 2 ^ 149)"

definition f32_half :: f32 where
  "f32_half = Finite False (2 ^ 148)"

text \<open>The rational number a finite float stands for.\<close>

fun f32_value :: "f32 \<Rightarrow> rat option" where
  "f32_value (Finite a m) = Some (of_int (signed a m) / 2 ^ 149)"
| "f32_value (Infinity a) = None"
| "f32_value NaN = None"

fun is_finite :: "f32 \<Rightarrow> bool" where
  "is_finite (Finite a m) = True"
| "is_finite (Infinity a) = False"
| "is_finite NaN = False"

text \<open>The value of a finite float in units of \<open>2\<^sup>-\<^sup>1\<^sup>4\<^sup>9\<close>.\<close>

fun units :: "f32 \<Rightarrow> int" where
  "units (Finite a m) = signed a m"
| "units (Infinity a) = 0"
| "units NaN = 0"

text \<open>
  An addition or a multiplication is exact when its operands are finite and its result
  is the finite float that stands for the exact sum or product: no rounding took place.
  (The product of two values in units is in units of \<open>2\<^sup>-\<^sup>2\<^sup>9\<^sup>8\<close>.)
\<close>

definition add_exact :: "f32 \<Rightarrow> f32 \<Rightarrow> bool" where
  "add_exact x y \<longleftrightarrow>
     is_finite x \<and> is_finite y \<and> is_finite (fadd x y) \<and> units (fadd x y) = units x + units y"

definition mul_exact :: "f32 \<Rightarrow> f32 \<Rightarrow> bool" where
  "mul_exact x y \<longleftrightarrow>
     is_finite x \<and> is_finite y \<and> is_finite (fmul x y)
     \<and> units (fmul x y) * 2 ^ 149 = units x * units y"


section \<open>The simulation: \<^verbatim>\<open>static/wasm/my_sim.cpp\<close>\<close>

text \<open>
  \<^verbatim>\<open>class MySim\<close> has the three public \<^verbatim>\<open>float\<close> fields below (the field \<^verbatim>\<open>size\<close> is
  \<open>size'\<close> here, \<open>size\<close> being taken) and a private \<^verbatim>\<open>Animator anim\<close>. \<^verbatim>\<open>Animator\<close>, the
  base class \<^verbatim>\<open>RaylibSim\<close> and the namespace \<^verbatim>\<open>Draw\<close> are declared in headers that are
  not part of this source file. What the program does with them is call them, so the
  model records those calls, in the order they are made and with their arguments, in a
  trace.
\<close>

record MySim =
  speed :: f32
  size' :: f32
  myVal :: f32

datatype color = ORANGE

datatype 'r call =
    GetFrameTime
  | AnimatorUpdate f32
  | BeginDraw
  | DrawGrid f32 f32
  | DrawParametric "f32 \<Rightarrow> 'r" "f32 \<Rightarrow> 'r" f32 f32 color
  | EndDraw
  | SetConfigFlags
  | InitWindow int int string
  | SetMainLoop int int

text \<open>The default member initialisers of lines 8 to 10.\<close>

definition MySim_new :: MySim where
  "MySim_new = \<lparr>speed = f32_lit 1, size' = f32_lit 2, myVal = f32_lit 0\<rparr>"

text \<open>
  \<^verbatim>\<open>MySim::update\<close>: the animator is updated, then \<^verbatim>\<open>myVal += dt * speed\<close> (line 14,
  \<open>advance\<close> below, named as the specification names it). The method is \<^verbatim>\<open>void\<close>:
  what it yields is the new state and the calls it made.
\<close>

definition advance :: "f32 \<Rightarrow> MySim \<Rightarrow> MySim" where
  "advance dt s = s\<lparr>myVal := fadd (myVal s) (fmul dt (speed s))\<rparr>"

definition update :: "f32 \<Rightarrow> MySim \<Rightarrow> MySim \<times> 'r call list" where
  "update dt s = (advance dt s, [AnimatorUpdate dt])"

text \<open>
  The two closures handed to \<^verbatim>\<open>Draw::Parametric\<close>. They call \<^verbatim>\<open>sin\<close>, \<^verbatim>\<open>cos\<close>,
  \<^verbatim>\<open>exp\<close> and \<^verbatim>\<open>pow\<close>, which are declared outside this source file; which overloads
  are chosen there decides whether the intermediate results are single or double
  precision. The functions and the arithmetic on their results are therefore parameters
  of the model, over a type \<open>'r\<close> of results. The operands that are \<^verbatim>\<open>float\<close>s whatever
  the overloads are (\<^verbatim>\<open>4*t\<close>, \<^verbatim>\<open>t/12.0f\<close> and \<^verbatim>\<open>size * 0.5f\<close>) are computed in binary32.
\<close>

record 'r cmath =
  c_sin :: "f32 \<Rightarrow> 'r"
  c_cos :: "f32 \<Rightarrow> 'r"
  c_exp :: "'r \<Rightarrow> 'r"
  c_pow :: "'r \<Rightarrow> int \<Rightarrow> 'r"
  c_int :: "int \<Rightarrow> 'r"
  c_float :: "f32 \<Rightarrow> 'r"
  c_sub :: "'r \<Rightarrow> 'r \<Rightarrow> 'r"
  c_mul :: "'r \<Rightarrow> 'r \<Rightarrow> 'r"

definition butterfly :: "'r cmath \<Rightarrow> f32 \<Rightarrow> 'r" where
  "butterfly M t =
     c_sub M (c_sub M (c_exp M (c_cos M t))
                      (c_mul M (c_int M 2) (c_cos M (fmul (f32_lit 4) t))))
             (c_pow M (c_sin M (fdiv t (f32_lit 12))) 5)"

definition curve_x :: "'r cmath \<Rightarrow> MySim \<Rightarrow> f32 \<Rightarrow> 'r" where
  "curve_x M s t =
     c_mul M (c_mul M (c_sin M t) (butterfly M t)) (c_float M (fmul (size' s) f32_half))"

definition curve_y :: "'r cmath \<Rightarrow> MySim \<Rightarrow> f32 \<Rightarrow> 'r" where
  "curve_y M s t =
     c_mul M (c_mul M (c_cos M t) (butterfly M t)) (c_float M (fmul (size' s) f32_half))"

text \<open>\<^verbatim>\<open>MySim::draw\<close> reads the state and changes nothing in it.\<close>

definition draw :: "'r cmath \<Rightarrow> MySim \<Rightarrow> 'r call list" where
  "draw M s =
     [BeginDraw,
      DrawGrid (f32_lit 10) (f32_lit 1),
      DrawParametric (curve_x M s) (curve_y M s) (f32_lit 0) (f32_lit 50) ORANGE,
      EndDraw]"

text \<open>
  The global \<^verbatim>\<open>simInstance\<close> is a pointer, null until \<^verbatim>\<open>main\<close> assigns it. The
  per-frame callback \<^verbatim>\<open>UpdateDrawFrame\<close> takes the value that \<^verbatim>\<open>GetFrameTime()\<close>
  returns in this frame as \<open>ft\<close>.
\<close>

definition simInstance_init :: "MySim option" where
  "simInstance_init = None"

definition UpdateDrawFrame :: "'r cmath \<Rightarrow> f32 \<Rightarrow> MySim option \<Rightarrow> MySim option \<times> 'r call list" where
  "UpdateDrawFrame M ft inst =
     (case inst of
        None \<Rightarrow> (None, [])
      | Some s \<Rightarrow>
          (let (s', tr) = update ft s
           in (Some s', GetFrameTime # tr @ draw M s')))"

text \<open>
  \<^verbatim>\<open>main\<close>, up to the point where it hands \<^verbatim>\<open>UpdateDrawFrame\<close> to the browser's main
  loop: whatever \<^verbatim>\<open>simInstance\<close> held is overwritten with a new \<^verbatim>\<open>MySim\<close>.
\<close>

definition main_init :: "MySim option \<Rightarrow> MySim option \<times> 'r call list" where
  "main_init inst =
     (Some MySim_new, [SetConfigFlags, InitWindow 800 600 ''MySim'', SetMainLoop 0 1])"

text \<open>
  The embind properties \<^verbatim>\<open>speed\<close> and \<^verbatim>\<open>size\<close> let the page write the two fields between
  frames. \<open>frames\<close> runs the state change of a sequence of frames, each given as the speed
  in force in that frame and the frame time.
\<close>

fun frames :: "(f32 \<times> f32) list \<Rightarrow> MySim \<Rightarrow> MySim" where
  "frames [] s = s"
| "frames ((sp, dt) # fs) s = frames fs (advance dt (s\<lparr>speed := sp\<rparr>))"

text \<open>A sequence of updates with no write from the page in between.\<close>

fun updates :: "f32 list \<Rightarrow> MySim \<Rightarrow> MySim" where
  "updates [] s = s"
| "updates (dt # dts) s = updates dts (advance dt s)"


section \<open>Facts about rounding\<close>

text \<open>The number of bits of \<open>n\<close> is the least \<open>k\<close> with \<open>n < 2\<^sup>k\<close>.\<close>

lemma bit_length_0 [simp]: "bit_length 0 = 0"
  by (simp add: bit_length.simps)

lemma bit_length_pos: "0 < n \<Longrightarrow> bit_length n = Suc (bit_length (n div 2))"
  by (subst bit_length.simps) simp

lemma bit_length_less: "n < 2 ^ bit_length n"
proof (induction n rule: bit_length.induct)
  case (1 n)
  show ?case
  proof (cases "n = 0")
    case True
    then show ?thesis by simp
  next
    case False
    then have "n div 2 < 2 ^ bit_length (n div 2)" by (rule "1.IH")
    then have "n < 2 * 2 ^ bit_length (n div 2)" by linarith
    with False show ?thesis by (simp add: bit_length_pos)
  qed
qed

lemma bit_length_ge: "0 < n \<Longrightarrow> 2 ^ (bit_length n - 1) \<le> n"
proof (induction n rule: bit_length.induct)
  case (1 n)
  then have n: "n \<noteq> 0" by simp
  show ?case
  proof (cases "n div 2 = 0")
    case True
    with 1 show ?thesis by (simp add: bit_length_pos)
  next
    case False
    then have "2 ^ (bit_length (n div 2) - 1) \<le> n div 2" using "1.IH" n by simp
    moreover have "bit_length (n div 2) = Suc (bit_length (n div 2) - 1)"
      using False by (simp add: bit_length_pos)
    ultimately have "2 ^ bit_length (n div 2) \<le> 2 * (n div 2)"
      by (metis mult_le_mono2 power_Suc)
    then have "2 ^ bit_length (n div 2) \<le> n" by linarith
    with 1 show ?thesis by (simp add: bit_length_pos)
  qed
qed

lemma bit_length_le: "n < 2 ^ k \<Longrightarrow> bit_length n \<le> k"
proof (cases "n = 0")
  case True
  then show ?thesis by simp
next
  case False
  assume "n < 2 ^ k"
  with bit_length_ge [of n] False have "(2::nat) ^ (bit_length n - 1) < 2 ^ k" by linarith
  then have "bit_length n - 1 < k" by simp
  then show ?thesis by simp
qed

lemma bit_length_gt: "2 ^ k \<le> n \<Longrightarrow> k < bit_length n"
proof -
  assume "2 ^ k \<le> n"
  with bit_length_less [of n] have "(2::nat) ^ k < 2 ^ bit_length n" by linarith
  then show ?thesis by simp
qed


lemma rne_upper: "n \<le> j * 2 ^ s \<Longrightarrow> rne s n \<le> j"
proof -
  assume le: "n \<le> j * 2 ^ s"
  then have "n div 2 ^ s \<le> (j * 2 ^ s) div 2 ^ s" by (rule div_le_mono)
  then have q: "n div 2 ^ s \<le> j" by simp
  show ?thesis
  proof (cases "n div 2 ^ s = j")
    case True
    have "n = j * 2 ^ s + n mod 2 ^ s" unfolding True [symmetric] by (metis div_mult_mod_eq)
    with le have "n mod 2 ^ s = 0" by linarith
    with True show ?thesis by (simp add: rne_def)
  next
    case False
    with q have "n div 2 ^ s + 1 \<le> j" by simp
    then show ?thesis by (simp add: rne_def Let_def)
  qed
qed




lemma pow2_split: "a = b + c \<Longrightarrow> (2::nat) ^ a = 2 ^ b * 2 ^ c"
  by (simp add: power_add)





text \<open>
  Every result of a rounding is a binary32 number, so the operations never leave the
  type, whatever their operands.
\<close>

lemma rne_le_pow24: "bit_length n - 24 \<le> s \<Longrightarrow> rne s n \<le> 2 ^ 24"
proof -
  assume s: "bit_length n - 24 \<le> s"
  have "n \<le> 2 ^ bit_length n" using bit_length_less [of n] by simp
  also have "(2::nat) ^ bit_length n \<le> 2 ^ (24 + s)"
    using s by (intro power_increasing) auto
  also have "\<dots> = 2 ^ 24 * 2 ^ s" by (rule pow2_split) simp
  finally show ?thesis by (rule rne_upper)
qed

lemma scaled_representable:
  assumes q: "q \<le> 2 ^ 24"
  shows "(q * 2 ^ e) mod 2 ^ (bit_length (q * 2 ^ e) - 24) = 0"
proof (cases "q = 2 ^ 24")
  case True
  then have r: "q * 2 ^ e = 2 ^ (24 + e)" by (simp add: power_add)
  have "bit_length ((2::nat) ^ (24 + e)) \<le> Suc (24 + e)" by (rule bit_length_le) simp
  then have "bit_length ((2::nat) ^ (24 + e)) - 24 \<le> 24 + e" by simp
  then have "(2::nat) ^ (bit_length ((2::nat) ^ (24 + e)) - 24) dvd 2 ^ (24 + e)"
    by (rule le_imp_power_dvd)
  then show ?thesis unfolding r by (simp add: mod_eq_0_iff_dvd)
next
  case False
  with q have "q < 2 ^ 24" by simp
  then have "q * 2 ^ e < 2 ^ 24 * 2 ^ e" by simp
  also have "\<dots> = 2 ^ (24 + e)" by (simp add: power_add)
  finally have "bit_length (q * 2 ^ e) \<le> 24 + e" by (rule bit_length_le)
  then have "bit_length (q * 2 ^ e) - 24 \<le> e" by simp
  then have "(2::nat) ^ (bit_length (q * 2 ^ e) - 24) dvd 2 ^ e" by (rule le_imp_power_dvd)
  then have "(2::nat) ^ (bit_length (q * 2 ^ e) - 24) dvd q * 2 ^ e" by (rule dvd_mult)
  then show ?thesis by (simp add: mod_eq_0_iff_dvd)
qed

lemma round_f32_is_f32: "is_f32 (round_f32 sg k n)"
proof -
  have "rne (max (bit_length n - 24) k) n \<le> 2 ^ 24" by (rule rne_le_pow24) simp
  then show ?thesis
    by (simp add: round_f32_def round_mag_def Let_def representable_def scaled_representable)
qed



lemma fmul_is_f32: "is_f32 (fmul x y)"
  by (cases x; cases y) (simp_all add: round_f32_is_f32)







lemma fle_not_flt: "fle x y \<Longrightarrow> \<not> flt y x"
  by (cases x; cases y) (auto split: if_splits)




lemma fmul_NaN: "fmul NaN x = NaN" "fmul x NaN = NaN"
  by (cases x; simp)+

lemma feq_finite: "is_finite x \<Longrightarrow> is_finite y \<Longrightarrow> feq x y \<longleftrightarrow> units x = units y"
  by (cases x; cases y) simp_all

text \<open>The equations that evaluate the arithmetic on literals.\<close>

lemmas f32_eval = round_f32_def round_mag_def rne_def bit_length.simps f32_lit_def Let_def signed_def


section \<open>What the update changes and what the drawing reads\<close>

lemma advance_fields:
  "speed (advance dt s) = speed s" "size' (advance dt s) = size' s"
  "myVal (advance dt s) = fadd (myVal s) (fmul dt (speed s))"
  by (simp_all add: advance_def)

lemma size_updates: "size' (updates dts s) = size' s"
  by (induction dts arbitrary: s) (simp_all add: advance_fields)

lemma size_frames: "size' (frames fs s) = size' s"
  by (induction fs arbitrary: s) (auto simp: advance_fields)

lemma curve_reads_size:
  "size' s = size' s' \<Longrightarrow> curve_x M s = curve_x M s'"
  "size' s = size' s' \<Longrightarrow> curve_y M s = curve_y M s'"
  by (simp_all add: curve_x_def curve_y_def fun_eq_iff)

lemma draw_reads_size: "size' s = size' s' \<Longrightarrow> draw M s = draw M s'"
  by (simp add: draw_def curve_reads_size [of s s'])








section \<open>The claims\<close>


text \<open>
  The additivity of updates fails in single precision. With \<^verbatim>\<open>myVal = 16777216\<close> (that
  is \<open>2\<^sup>2\<^sup>4\<close>) and \<^verbatim>\<open>speed = 1\<close>, two updates by \<open>1\<close> leave \<^verbatim>\<open>myVal\<close> where it was, since
  \<open>16777217\<close> is not a binary32 number and the tie goes to the even neighbour
  \<open>16777216\<close>; one update by \<open>1 + 1 = 2\<close> gives \<open>16777218\<close>.
\<close>

theorem updates_not_additive:
  "fle (f32_lit 0) (f32_lit 1)
   \<and> is_f32 (f32_lit 16777216)
   \<and> myVal (advance (f32_lit 1) (advance (f32_lit 1)
        \<lparr>speed = f32_lit 1, size' = f32_lit 2, myVal = f32_lit 16777216\<rparr>)) = f32_lit 16777216
   \<and> myVal (advance (fadd (f32_lit 1) (f32_lit 1))
        \<lparr>speed = f32_lit 1, size' = f32_lit 2, myVal = f32_lit 16777216\<rparr>) = f32_lit 16777218
   \<and> \<not> feq (f32_lit 16777216) (f32_lit 16777218)"
  by (simp add: advance_def representable_def f32_eval)

text \<open>
  C3 (amended). For a fixed speed, \<^verbatim>\<open>update(dt1); update(dt2)\<close> leaves a \<^verbatim>\<open>myVal\<close> that
  compares equal to the one a single \<^verbatim>\<open>update(dt1 + dt2)\<close> leaves, provided that none of
  the operations involved rounds: the products \<open>dt1 * speed\<close>, \<open>dt2 * speed\<close> and
  \<open>(dt1 + dt2) * speed\<close>, the sum \<open>dt1 + dt2\<close> and the three accumulations are exact.
\<close>

theorem updates_additive_when_exact:
  assumes "mul_exact dt1 (speed s)" and "mul_exact dt2 (speed s)"
    and "add_exact dt1 dt2" and "mul_exact (fadd dt1 dt2) (speed s)"
    and "add_exact (myVal s) (fmul dt1 (speed s))"
    and "add_exact (fadd (myVal s) (fmul dt1 (speed s))) (fmul dt2 (speed s))"
    and "add_exact (myVal s) (fmul (fadd dt1 dt2) (speed s))"
  shows "feq (myVal (advance dt2 (advance dt1 s))) (myVal (advance (fadd dt1 dt2) s))"
proof -
  let ?sp = "speed s"
  let ?p1 = "fmul dt1 ?sp" and ?p2 = "fmul dt2 ?sp" and ?p = "fmul (fadd dt1 dt2) ?sp"
  have "units ?p * 2 ^ 149 = (units dt1 + units dt2) * units ?sp"
    using assms(3,4) by (simp add: mul_exact_def add_exact_def)
  also have "\<dots> = units ?p1 * 2 ^ 149 + units ?p2 * 2 ^ 149"
    using assms(1,2) by (simp add: mul_exact_def distrib_right)
  also have "\<dots> = (units ?p1 + units ?p2) * 2 ^ 149" by (simp add: distrib_right)
  finally have p: "units ?p = units ?p1 + units ?p2" by simp
  have "units (fadd (fadd (myVal s) ?p1) ?p2) = units (myVal s) + units ?p1 + units ?p2"
    using assms(5,6) by (simp add: add_exact_def)
  also have "\<dots> = units (fadd (myVal s) ?p)"
    using assms(7) p by (simp add: add_exact_def)
  finally have "feq (fadd (fadd (myVal s) ?p1) ?p2) (fadd (myVal s) ?p)"
    using assms(6,7) by (simp add: feq_finite add_exact_def)
  then show ?thesis by (simp add: advance_fields)
qed

theorem updates_additive_when_exact_witness:
  "mul_exact (f32_lit 1) (speed MySim_new) \<and> mul_exact (f32_lit 2) (speed MySim_new)
   \<and> add_exact (f32_lit 1) (f32_lit 2)
   \<and> feq (myVal (advance (f32_lit 2) (advance (f32_lit 1) MySim_new)))
         (myVal (advance (fadd (f32_lit 1) (f32_lit 2)) MySim_new))"
  using updates_additive_when_exact [of "f32_lit 1" MySim_new "f32_lit 2"]
  by (simp add: mul_exact_def add_exact_def MySim_new_def f32_eval)

text \<open>
  C6. Whatever \<^verbatim>\<open>simInstance\<close> held before, \<^verbatim>\<open>main\<close> leaves it pointing to a new
  \<^verbatim>\<open>MySim\<close> whose fields are \<open>speed = 1\<close>, \<open>size = 2\<close> and \<open>myVal = +0\<close>; in particular the
  start from the null pointer of static initialisation gives this state, and nothing of
  an earlier state survives.
\<close>

theorem main_starts_from_defaults:
  "fst (main_init inst) = Some MySim_new
   \<and> fst (main_init inst) = fst (main_init simInstance_init)
   \<and> f32_value (speed MySim_new) = Some 1
   \<and> f32_value (size' MySim_new) = Some 2
   \<and> myVal MySim_new = Finite False 0"
  by (simp add: main_init_def MySim_new_def f32_lit_def signed_def)

text \<open>
  C7. In a frame with an instance, the callback reads the frame time, runs \<^verbatim>\<open>update\<close>
  and then \<^verbatim>\<open>draw\<close>: the trace of the frame is the call of \<^verbatim>\<open>update\<close> followed by the
  four calls of \<^verbatim>\<open>draw\<close>, the state \<^verbatim>\<open>draw\<close> reads is the state \<^verbatim>\<open>update\<close> left, and
  that is the state the frame ends with. \<^verbatim>\<open>main\<close> leaves an instance before it starts
  the main loop and a frame keeps its instance, so every frame of the loop is such a
  frame.
\<close>

theorem frame_updates_then_draws:
  "UpdateDrawFrame M ft (Some s) =
     (Some (fst (update ft s)), GetFrameTime # snd (update ft s) @ draw M (fst (update ft s)))
   \<and> snd (UpdateDrawFrame M ft (Some s)) =
     [GetFrameTime, AnimatorUpdate ft, BeginDraw, DrawGrid (f32_lit 10) (f32_lit 1),
      DrawParametric (curve_x M (advance ft s)) (curve_y M (advance ft s))
        (f32_lit 0) (f32_lit 50) ORANGE,
      EndDraw]
   \<and> fst (UpdateDrawFrame M ft (Some s)) = Some (advance ft s)
   \<and> fst (main_init inst) = Some MySim_new"
  by (simp add: UpdateDrawFrame_def update_def draw_def main_init_def)



text \<open>
  C9. Two states with the same \<^verbatim>\<open>size\<close> are drawn alike, whatever their \<^verbatim>\<open>speed\<close> and
  \<^verbatim>\<open>myVal\<close>: \<^verbatim>\<open>draw\<close> makes the same calls with the same two closures. So no number of
  updates, with or without writes to \<^verbatim>\<open>speed\<close> in between, changes what is drawn.
\<close>

theorem draw_depends_on_size_only:
  assumes "size' s = size' s'"
  shows "draw M s = draw M s'
         \<and> curve_x M s = curve_x M s' \<and> curve_y M s = curve_y M s'
         \<and> draw M (updates dts s) = draw M s
         \<and> draw M (frames fs s) = draw M s"
  using assms
  by (simp add: draw_reads_size [of s s'] curve_reads_size [of s s']
      draw_reads_size [OF size_updates] draw_reads_size [OF size_frames])

theorem draw_depends_on_size_only_witness:
  "size' \<lparr>speed = f32_lit 1, size' = f32_lit 2, myVal = f32_lit 0\<rparr>
     = size' \<lparr>speed = f32_lit 3, size' = f32_lit 2, myVal = f32_lit 7\<rparr>
   \<and> draw \<lparr>c_sin = id, c_cos = id, c_exp = id, c_pow = (\<lambda>x n. x), c_int = (\<lambda>i. f32_lit (nat i)),
            c_float = id, c_sub = fadd, c_mul = fmul\<rparr>
          \<lparr>speed = f32_lit 1, size' = f32_lit 2, myVal = f32_lit 0\<rparr>
     = draw \<lparr>c_sin = id, c_cos = id, c_exp = id, c_pow = (\<lambda>x n. x), c_int = (\<lambda>i. f32_lit (nat i)),
            c_float = id, c_sub = fadd, c_mul = fmul\<rparr>
          \<lparr>speed = f32_lit 3, size' = f32_lit 2, myVal = f32_lit 7\<rparr>"
  using draw_depends_on_size_only
    [of "\<lparr>speed = f32_lit 1, size' = f32_lit 2, myVal = f32_lit 0\<rparr>"
        "\<lparr>speed = f32_lit 3, size' = f32_lit 2, myVal = f32_lit 7\<rparr>"
        "\<lparr>c_sin = id, c_cos = id, c_exp = id, c_pow = (\<lambda>x n. x), c_int = (\<lambda>i. f32_lit (nat i)),
            c_float = id, c_sub = fadd, c_mul = fmul\<rparr>" "[]" "[]"]
  by simp

text \<open>
  C10. With \<^verbatim>\<open>simInstance\<close> null the callback does nothing: the pointer stays null and
  no call is made, not even the one that reads the frame time.
\<close>

theorem null_instance_frame_is_noop:
  "UpdateDrawFrame M ft None = (None, [])"
  by (simp add: UpdateDrawFrame_def)

end
